theory Spec2Isabelle
  imports Main
begin

section \<open>Data model\<close>

text \<open>
  An article as the backend delivers it.  The fields that the admin form edits
  (\<open>emptyArticle\<close> in AdminPage.jsx) form the parent record; the server-owned \<open>id\<close> and
  \<open>source_type\<close> extend it.  The field \<open>id\<close> is named \<open>article_id\<close>, since \<open>id\<close> is the
  identity function of HOL.  Ids are compared with \<open>===\<close> and spliced into URLs; they are
  modelled as natural numbers.
\<close>

record article_fields =
  title :: string
  url :: string
  source :: string
  author :: string
  summary :: string
  topics :: "string list"
  read_time :: "int option"

record article = article_fields +
  article_id :: nat
  source_type :: string

datatype tab = Discover | Saved

datatype view_mode = Single | Cards | Feed

text \<open>The \<open>useState\<close> cells of \<open>App\<close>, in the order of their declaration.\<close>

record app_state =
  articles :: "article list"
  savedArticles :: "article list"
  loading :: bool
  error :: "string option"
  shuffling :: bool
  activeTab :: tab
  viewMode :: view_mode
  singleIndex :: nat
  showAdmin :: bool
  showAgent :: bool

section \<open>The browser around the component\<close>

text \<open>
  A call of \<open>fetch\<close> is recorded as a request (method, URL, JSON body if any).  What the
  backend answers is an input of the model: the promise of \<open>fetch\<close> rejects with an
  error message (a network failure), or resolves to a response with its \<open>ok\<close> flag and the
  outcome of \<open>response.json()\<close>, which is the message of the error it throws (\<open>Inl\<close>) or the
  parsed data (\<open>Inr\<close>).
\<close>

datatype http_method = GET | POST

datatype request = Request http_method string "article_fields option"

datatype 'a fetch_result = Rejected string | Resolved bool "string + 'a"

text \<open>
  What a handler leaves behind once its promises have settled: the component state, the
  requests it issued in order, and the lines it wrote with \<open>console.error\<close> (label and
  error message).
\<close>

record 'st outcome =
  state :: 'st
  requests :: "request list"
  console :: "(string \<times> string) list"

text \<open>\<open>const API_BASE = import.meta.env.VITE_API_URL || '/api'\<close>: the empty string is falsy.\<close>

definition API_BASE :: "string option \<Rightarrow> string" where
  "API_BASE VITE_API_URL =
     (case VITE_API_URL of
        None \<Rightarrow> ''/api''
      | Some u \<Rightarrow> if u = [] then ''/api'' else u)"

text \<open>The decimal numeral a template literal splices in for a non-negative integer.\<close>

definition digit_char :: "nat \<Rightarrow> char" where
  "digit_char d = char_of (48 + d)"

function string_of_nat :: "nat \<Rightarrow> string" where
  "string_of_nat n =
     (if n < 10 then [digit_char n]
      else string_of_nat (n div 10) @ [digit_char (n mod 10)])"
  by pat_completeness auto
termination
  by (relation "measure (\<lambda>n. n)") auto

declare string_of_nat.simps [simp del]

text \<open>
  \<open>xs[i]\<close> in JavaScript: \<open>undefined\<close> (here \<open>None\<close>) outside the array, never an exception.
\<close>

definition js_index :: "'a list \<Rightarrow> nat \<Rightarrow> 'a option" where
  "js_index xs i = (if i < length xs then Some (xs ! i) else None)"

section \<open>App: fetching\<close>

definition random_count :: "view_mode \<Rightarrow> nat" where
  "random_count vm = (if vm = Single then 1 else if vm = Feed then 8 else 4)"

definition random_url :: "string \<Rightarrow> nat \<Rightarrow> string" where
  "random_url base n = base @ ''/articles/random?count='' @ string_of_nat n"

definition dismiss_url :: "string \<Rightarrow> nat \<Rightarrow> string" where
  "dismiss_url base articleId = base @ ''/articles/'' @ string_of_nat articleId @ ''/dismiss''"

text \<open>
  \<open>fetchArticles\<close>: one GET; every failure (rejection, a response that is not ok, a body
  that does not parse) ends in the \<open>catch\<close> block, which stores the message in \<open>error\<close>;
  the \<open>finally\<close> block clears \<open>loading\<close> and \<open>shuffling\<close>.
\<close>

definition fetch_failed :: "app_state \<Rightarrow> string \<Rightarrow> app_state" where
  "fetch_failed s msg = s\<lparr>loading := False, error := Some msg, shuffling := False\<rparr>"

definition fetchArticles ::
  "string \<Rightarrow> article list fetch_result \<Rightarrow> app_state \<Rightarrow> app_state outcome" where
  "fetchArticles base response s =
     (let req = Request GET (random_url base (random_count (viewMode s))) None;
          s' = (case response of
                  Rejected msg \<Rightarrow> fetch_failed s msg
                | Resolved ok body \<Rightarrow>
                    if \<not> ok then fetch_failed s ''Failed to fetch articles''
                    else (case body of
                            Inl msg \<Rightarrow> fetch_failed s msg
                          | Inr data \<Rightarrow>
                              s\<lparr>articles := data, loading := False, error := None,
                                shuffling := False, singleIndex := 0\<rparr>))
      in \<lparr>state = s', requests = [req], console = []\<rparr>)"

text \<open>
  \<open>handleShowMore\<close>: \<open>articles.length - 1\<close> is \<open>-1\<close> for the empty array, so the comparison is
  made on integers.
\<close>

definition handleShowMore ::
  "string \<Rightarrow> article list fetch_result \<Rightarrow> app_state \<Rightarrow> app_state outcome" where
  "handleShowMore base response s =
     (if viewMode s = Single \<and> int (singleIndex s) < int (length (articles s)) - 1
      then \<lparr>state = s\<lparr>singleIndex := singleIndex s + 1\<rparr>, requests = [], console = []\<rparr>
      else fetchArticles base response s)"

section \<open>App: dismiss and replace\<close>

text \<open>
  \<open>handleDismiss\<close>.  The POST is awaited first; its response is never inspected, so only
  a rejection of the promise leaves the \<open>try\<close> block there.  Both branches on \<open>viewMode\<close>
  then request one random article.  Whatever is thrown ends in the \<open>catch\<close> block, which
  writes to the console and touches no state.  The handler is taken as one step: the list
  that the updater function receives is the one of the state the handler started in.
\<close>

definition replace_dismissed :: "nat \<Rightarrow> article \<Rightarrow> article list \<Rightarrow> article list" where
  "replace_dismissed articleId fresh prev =
     map (\<lambda>a. if article_id a = articleId then fresh else a) prev"

definition handleDismiss ::
  "string \<Rightarrow> nat \<Rightarrow> 'b fetch_result \<Rightarrow> article list fetch_result \<Rightarrow> app_state
     \<Rightarrow> app_state outcome" where
  "handleDismiss base articleId dismissed response s =
     (let post = Request POST (dismiss_url base articleId) None;
          get = Request GET (random_url base 1) None;
          label = ''Failed to dismiss article:''
      in case dismissed of
           Rejected msg \<Rightarrow> \<lparr>state = s, requests = [post], console = [(label, msg)]\<rparr>
         | Resolved _ _ \<Rightarrow>
             (case response of
                Rejected msg \<Rightarrow>
                  \<lparr>state = s, requests = [post, get], console = [(label, msg)]\<rparr>
              | Resolved _ body \<Rightarrow>
                  (case body of
                     Inl msg \<Rightarrow>
                       \<lparr>state = s, requests = [post, get], console = [(label, msg)]\<rparr>
                   | Inr data \<Rightarrow>
                       \<lparr>state =
                          (if viewMode s = Single
                           then (if length data > 0 then s\<lparr>articles := data\<rparr> else s)
                           else (if length data > 0
                                 then s\<lparr>articles :=
                                        replace_dismissed articleId (data ! 0) (articles s)\<rparr>
                                 else s)),
                        requests = [post, get], console = []\<rparr>)))"

section \<open>App: the saved set\<close>

definition isArticleSaved :: "app_state \<Rightarrow> nat \<Rightarrow> bool" where
  "isArticleSaved s articleId = list_ex (\<lambda>a. article_id a = articleId) (savedArticles s)"

text \<open>
  \<open>handleSave\<close>: the existence check reads \<open>savedArticles\<close> of the current render, the
  updater function receives the current state; between two clicks the component has
  rendered again, so both are the same list.
\<close>

definition handleSave :: "article \<Rightarrow> app_state \<Rightarrow> app_state" where
  "handleSave article s =
     (let isAlreadySaved =
            list_ex (\<lambda>a. article_id a = article_id article) (savedArticles s)
      in if isAlreadySaved
         then s\<lparr>savedArticles :=
                  filter (\<lambda>a. article_id a \<noteq> article_id article) (savedArticles s)\<rparr>
         else s\<lparr>savedArticles := savedArticles s @ [article]\<rparr>)"

text \<open>
  \<open>localStorage\<close> maps keys to strings.  \<open>JSON.stringify\<close> and \<open>JSON.parse\<close> belong to the
  platform; they are parameters of the model (\<open>parse\<close> gives the message of the error it
  throws, or the parsed list).
\<close>

type_synonym storage = "string \<rightharpoonup> string"

definition storage_key :: string where
  "storage_key = ''readrabbit_saved''"

text \<open>
  The first effect of \<open>App\<close>: read the key; a missing key (\<open>null\<close>) and the empty string are
  falsy and leave the state alone; otherwise the parsed value is handed to
  \<open>setSavedArticles\<close>.  The result is the argument of that call, if it was made.
\<close>

definition load_saved ::
  "(string \<Rightarrow> string + article list) \<Rightarrow> storage \<Rightarrow> string + article list option" where
  "load_saved parse store =
     (case store storage_key of
        None \<Rightarrow> Inr None
      | Some saved \<Rightarrow>
          if saved = [] then Inr None
          else (case parse saved of Inl msg \<Rightarrow> Inl msg | Inr xs \<Rightarrow> Inr (Some xs)))"

text \<open>The second effect of \<open>App\<close>, with dependency \<open>[savedArticles]\<close>.\<close>

definition persist_saved :: "(article list \<Rightarrow> string) \<Rightarrow> app_state \<Rightarrow> storage \<Rightarrow> storage" where
  "persist_saved stringify s store = store(storage_key \<mapsto> stringify (savedArticles s))"

record browser =
  app :: app_state
  localStorage :: storage

definition initial_state :: app_state where
  "initial_state =
     \<lparr>articles = [], savedArticles = [], loading = True, error = None, shuffling = False,
      activeTab = Discover, viewMode = Cards, singleIndex = 0, showAdmin = False,
      showAgent = False\<rparr>"

text \<open>
  Mounting \<open>App\<close>: the effects of the first render run in the order of their declaration,
  each with the state of that render (\<open>savedArticles = []\<close>); when the first effect has
  called \<open>setSavedArticles\<close> the component renders again with a new array, and the second
  effect runs once more.  An exception of \<open>JSON.parse\<close> is not caught by the component
  (\<open>Inl\<close>).  The third effect calls \<open>fetchArticles\<close>, which is modelled above and does not
  touch the saved set.
\<close>

definition mount ::
  "(string \<Rightarrow> string + article list) \<Rightarrow> (article list \<Rightarrow> string) \<Rightarrow> storage
     \<Rightarrow> string + browser" where
  "mount parse stringify store =
     (case load_saved parse store of
        Inl msg \<Rightarrow> Inl msg
      | Inr loaded \<Rightarrow>
          (let store1 = persist_saved stringify initial_state store
           in case loaded of
                None \<Rightarrow> Inr \<lparr>app = initial_state, localStorage = store1\<rparr>
              | Some xs \<Rightarrow>
                  (let s = initial_state\<lparr>savedArticles := xs\<rparr>
                   in Inr \<lparr>app = s, localStorage = persist_saved stringify s store1\<rparr>)))"

text \<open>
  A click on a card's save button: \<open>handleSave\<close> always installs a new array (\<open>filter\<close> or a
  spread), so the component renders again and the second effect runs.
\<close>

definition save_click :: "(article list \<Rightarrow> string) \<Rightarrow> article \<Rightarrow> browser \<Rightarrow> browser" where
  "save_click stringify article b =
     (let s = handleSave article (app b)
      in \<lparr>app = s, localStorage = persist_saved stringify s (localStorage b)\<rparr>)"

section \<open>App: what is rendered\<close>

text \<open>
  The part of the JSX that decides which screen is shown and which articles appear on it.
  The error screen carries the message and the \<open>onClick\<close> handler of its only button,
  \<open>Try Again\<close>, which is \<open>fetchArticles\<close>; \<open>invoke\<close> is a click on a button with that
  handler.  \<open>if (error)\<close> is false for \<open>null\<close> and for the empty string.  A card is an
  article with its \<open>isSaved\<close> flag; in the single view the article is the value of an
  index expression, which JavaScript evaluates to \<open>undefined\<close> outside the array.  Every
  card, on both tabs, has \<open>handleDismiss\<close> as its \<open>onDismiss\<close> and \<open>handleSave\<close> as its
  \<open>onSave\<close>.
\<close>

datatype handler = FetchArticles


definition displayArticles :: "app_state \<Rightarrow> article list" where
  "displayArticles s = (if activeTab s = Saved then savedArticles s else articles s)"

datatype content =
    EmptySaved
  | SingleCard "(article option \<times> bool) option"
  | FeedList "(article \<times> bool) list"
  | CardGrid "(article \<times> bool) list"

datatype view =
    LoadingView
  | ErrorView string handler
  | AdminView
  | AgentView
  | MainView content

definition single_index :: "app_state \<Rightarrow> nat" where
  "single_index s =
     (if activeTab s = Saved then singleIndex s mod length (displayArticles s) else 0)"

definition single_card :: "app_state \<Rightarrow> (article option \<times> bool) option" where
  "single_card s =
     (if length (displayArticles s) > 0
      then (let shown = js_index (displayArticles s) (single_index s)
            in Some (shown,
                 (case shown of
                    None \<Rightarrow> False
                  | Some a \<Rightarrow> isArticleSaved s (article_id a))))
      else None)"

definition cards :: "app_state \<Rightarrow> (article \<times> bool) list" where
  "cards s = map (\<lambda>a. (a, isArticleSaved s (article_id a))) (displayArticles s)"

definition main_content :: "app_state \<Rightarrow> content" where
  "main_content s =
     (if activeTab s = Saved \<and> length (savedArticles s) = 0 then EmptySaved
      else if viewMode s = Single then SingleCard (single_card s)
      else if viewMode s = Feed then FeedList (cards s)
      else CardGrid (cards s))"

definition render :: "app_state \<Rightarrow> view" where
  "render s =
     (if loading s then LoadingView
      else if error s \<noteq> None \<and> error s \<noteq> Some []
      then ErrorView (the (error s)) FetchArticles
      else if showAdmin s then AdminView
      else if showAgent s then AgentView
      else MainView (main_content s))"

section \<open>AdminPage: saving a manually entered article\<close>

text \<open>
  \<open>String.prototype.trim\<close> belongs to the platform and is a parameter of
  \<open>handleManualSave\<close> below.  \<open>trim_chars\<close> is that function on the strings of the model,
  whose characters are the code points below 256: it strips, at both ends, the white
  space and line terminators of ECMAScript among them (tab, line feed, vertical tab, form
  feed, carriage return, space, no-break space).
\<close>

definition is_space :: "char \<Rightarrow> bool" where
  "is_space c =
     (c \<in> set [CHR 0x09, CHR 0x0A, CHR 0x0B, CHR 0x0C, CHR 0x0D, CHR 0x20, CHR 0xA0])"

definition trim_chars :: "string \<Rightarrow> string" where
  "trim_chars str = rev (dropWhile is_space (rev (dropWhile is_space str)))"

datatype add_mode = AI | Manual

text \<open>
  The \<open>useState\<close> cells of \<open>AdminPage\<close>.  \<open>url\<close>, \<open>loading\<close>, \<open>error\<close> and \<open>articles\<close> carry a
  prime, the names being taken by the records above.  \<open>stats\<close> holds what
  \<open>/admin/stats\<close> answered (its \<open>total_articles\<close>), or \<open>null\<close>.
\<close>

record admin_state =
  url' :: string
  loading' :: bool
  preview :: "article_fields option"
  error' :: "string option"
  success :: "string option"
  articles' :: "article list"
  stats :: "nat option"
  addMode :: add_mode
  manualForm :: article_fields

definition emptyArticle :: article_fields where
  "emptyArticle =
     \<lparr>title = [], url = [], source = [], author = [], summary = [], topics = [],
      read_time = None\<rparr>"

text \<open>
  A handler of \<open>AdminPage\<close> may also schedule callbacks with \<open>setTimeout\<close>; the delays are
  recorded, the callbacks (\<open>setSuccess(null)\<close>) are not run.
\<close>

record 'st timed_outcome = "'st outcome" +
  timers :: "nat list"

definition fetchStats ::
  "string \<Rightarrow> nat fetch_result \<Rightarrow> admin_state \<Rightarrow> admin_state outcome" where
  "fetchStats base response s =
     (let req = Request GET (base @ ''/admin/stats'') None;
          label = ''Failed to fetch stats:''
      in case response of
           Rejected msg \<Rightarrow> \<lparr>state = s, requests = [req], console = [(label, msg)]\<rparr>
         | Resolved _ body \<Rightarrow>
             (case body of
                Inl msg \<Rightarrow> \<lparr>state = s, requests = [req], console = [(label, msg)]\<rparr>
              | Inr data \<Rightarrow>
                  \<lparr>state = s\<lparr>stats := Some data\<rparr>, requests = [req], console = []\<rparr>))"

text \<open>\<open>fetchArticles\<close> of \<open>AdminPage\<close>; \<open>data.articles || []\<close> replaces a missing field.\<close>

definition fetchArticles' ::
  "string \<Rightarrow> article list option fetch_result \<Rightarrow> admin_state \<Rightarrow> admin_state outcome" where
  "fetchArticles' base response s =
     (let req = Request GET (base @ ''/articles?limit=100'') None;
          label = ''Failed to fetch articles:''
      in case response of
           Rejected msg \<Rightarrow> \<lparr>state = s, requests = [req], console = [(label, msg)]\<rparr>
         | Resolved _ body \<Rightarrow>
             (case body of
                Inl msg \<Rightarrow> \<lparr>state = s, requests = [req], console = [(label, msg)]\<rparr>
              | Inr data \<Rightarrow>
                  \<lparr>state = s\<lparr>articles' := (case data of None \<Rightarrow> [] | Some xs \<Rightarrow> xs)\<rparr>,
                   requests = [req], console = []\<rparr>))"

text \<open>
  \<open>handleManualSave\<close>.  The guard comes before every effect; \<open>!str.trim()\<close> holds when
  the trimmed string is empty.  The body of the POST is the
  form with \<open>read_time || null\<close> (zero is falsy).  The answer carries the optional
  \<open>detail\<close> of the backend's error; \<open>data.detail || '...'\<close> falls back for a missing or
  empty one.  After a success \<open>fetchStats()\<close> and \<open>fetchArticles()\<close> are called without
  \<open>await\<close>: their requests leave in this order, and the state is the one after both have
  settled.
\<close>

definition manual_body :: "article_fields \<Rightarrow> article_fields" where
  "manual_body form =
     form\<lparr>read_time := (case read_time form of
                          None \<Rightarrow> None
                        | Some n \<Rightarrow> if n = 0 then None else Some n)\<rparr>"

definition manual_failed :: "admin_state \<Rightarrow> request \<Rightarrow> string \<Rightarrow> admin_state timed_outcome" where
  "manual_failed s post msg =
     \<lparr>state = s\<lparr>loading' := False, error' := Some msg\<rparr>, requests = [post], console = [],
      timers = []\<rparr>"

definition handleManualSave ::
  "(string \<Rightarrow> string) \<Rightarrow> string \<Rightarrow> string option fetch_result \<Rightarrow> nat fetch_result
     \<Rightarrow> article list option fetch_result \<Rightarrow> admin_state \<Rightarrow> admin_state timed_outcome" where
  "handleManualSave trim base saved stats_response articles_response s =
     (if trim (title (manualForm s)) = [] \<or> trim (url (manualForm s)) = []
      then \<lparr>state = s\<lparr>error' := Some ''Title and URL are required''\<rparr>, requests = [],
            console = [], timers = []\<rparr>
      else
        (let post = Request POST (base @ ''/articles'') (Some (manual_body (manualForm s)));
             s1 = s\<lparr>loading' := True, error' := None\<rparr>
         in case saved of
              Rejected msg \<Rightarrow> manual_failed s1 post msg
            | Resolved ok body \<Rightarrow>
                (case body of
                   Inl msg \<Rightarrow> manual_failed s1 post msg
                 | Inr detail \<Rightarrow>
                     if \<not> ok
                     then manual_failed s1 post
                            (case detail of
                               None \<Rightarrow> ''Failed to save article''
                             | Some d \<Rightarrow> if d = [] then ''Failed to save article'' else d)
                     else
                       (let s2 = s1\<lparr>loading' := False,
                                   success := Some (''Added: '' @ title (manualForm s)),
                                   manualForm := emptyArticle\<rparr>;
                            o1 = fetchStats base stats_response s2;
                            o2 = fetchArticles' base articles_response (state o1)
                        in \<lparr>state = state o2,
                            requests = post # requests o1 @ requests o2,
                            console = console o1 @ console o2,
                            timers = [3000]\<rparr>))))"

section \<open>Example data\<close>

text \<open>Concrete values on which the theorems below are evaluated.\<close>

definition sample_article :: "nat \<Rightarrow> article" where
  "sample_article n =
     \<lparr>title = ''Title'', url = ''https://example.org'', source = [], author = [],
      summary = [], topics = [], read_time = None, article_id = n, source_type = []\<rparr>"

definition sample_state :: app_state where
  "sample_state =
     initial_state\<lparr>articles := [sample_article 1, sample_article 2],
       savedArticles := [sample_article 1, sample_article 2], loading := False\<rparr>"

definition sample_admin :: "string \<Rightarrow> string \<Rightarrow> admin_state" where
  "sample_admin t u =
     \<lparr>url' = [], loading' = False, preview = None, error' = None, success = None,
      articles' = [sample_article 1], stats = Some 1, addMode = Manual,
      manualForm = emptyArticle\<lparr>title := t, url := u\<rparr>\<rparr>"

section \<open>Facts about the saved set\<close>

lemma handleSave_saved:
  "savedArticles (handleSave a s) =
     (if isArticleSaved s (article_id a)
      then filter (\<lambda>x. article_id x \<noteq> article_id a) (savedArticles s)
      else savedArticles s @ [a])"
  by (simp add: handleSave_def isArticleSaved_def)

lemma isArticleSaved_iff:
  "isArticleSaved s k \<longleftrightarrow> k \<in> article_id ` set (savedArticles s)"
  by (auto simp: isArticleSaved_def list_ex_iff)

lemma filter_absent_id:
  "k \<notin> article_id ` set xs \<Longrightarrow> filter (\<lambda>x. article_id x \<noteq> k) xs = xs"
  by (induction xs) auto

lemma fold_handleSave:
  "distinct (map article_id (savedArticles s @ as)) \<Longrightarrow>
     savedArticles (fold handleSave as s) = savedArticles s @ as"
proof (induction as arbitrary: s)
  case Nil
  then show ?case by simp
next
  case (Cons a as)
  from Cons.prems have absent: "\<not> isArticleSaved s (article_id a)"
    by (auto simp: isArticleSaved_iff)
  then have step: "savedArticles (handleSave a s) = savedArticles s @ [a]"
    by (simp add: handleSave_saved)
  with Cons.prems have "distinct (map article_id (savedArticles (handleSave a s) @ as))"
    by simp
  from Cons.IH[OF this] step show ?case by simp
qed

lemma handleDismiss_saved:
  "savedArticles (state (handleDismiss base k dismissed response s)) = savedArticles s"
  by (simp add: handleDismiss_def Let_def split: fetch_result.splits sum.splits)

lemma fetchArticles_saved:
  "savedArticles (state (fetchArticles base response s)) = savedArticles s"
  by (simp add: fetchArticles_def fetch_failed_def Let_def split: fetch_result.splits sum.splits)

lemma handleShowMore_saved:
  "savedArticles (state (handleShowMore base response s)) = savedArticles s"
  by (simp add: handleShowMore_def fetchArticles_saved)

lemma string_of_nat_1: "string_of_nat (Suc 0) = ''1''"
  by code_simp

lemma string_of_nat_2: "string_of_nat (Suc (Suc 0)) = ''2''"
  by code_simp


lemma string_of_nat_12: "string_of_nat 12 = ''12''"
  by code_simp

lemmas sample_defs =
  sample_state_def initial_state_def sample_article_def isArticleSaved_def handleSave_def

lemma mount_saved:
  "mount parse stringify store = Inr b \<Longrightarrow>
     savedArticles (app b) =
       (case load_saved parse store of Inr (Some xs) \<Rightarrow> xs | _ \<Rightarrow> [])"
  by (auto simp: mount_def Let_def initial_state_def split: sum.splits option.splits)

lemma load_saved_after_save:
  "parse (stringify (savedArticles (handleSave a (app b0)))) =
     Inr (savedArticles (handleSave a (app b0))) \<Longrightarrow>
   load_saved parse (localStorage (save_click stringify a b0)) =
     (if stringify (savedArticles (handleSave a (app b0))) = [] then Inr None
      else Inr (Some (savedArticles (handleSave a (app b0)))))"
  by (simp add: load_saved_def save_click_def persist_saved_def Let_def)

lemma handleSave_distinct:
  "distinct (map article_id (savedArticles s)) \<Longrightarrow>
     distinct (map article_id (savedArticles (handleSave a s)))"
  by (auto simp: handleSave_saved distinct_map_filter isArticleSaved_iff)

text \<open>
  C1.  Amended: \<open>handleSave\<close> keeps the ids of the saved set pairwise distinct.  Whatever
  the list was, at most one entry with the article's id is left afterwards; when an
  entry with that id exists, nothing is inserted: the result is a strictly shorter
  sublist without that id.  A list with distinct ids therefore has distinct ids after the
  operation.  The load on mount, the other operation that sets the saved set, makes no
  check: the saved set becomes the parsed stored list as it is (the empty list when
  nothing is stored).  It has distinct ids when the stored text is the one that the
  storage effect wrote after a \<open>handleSave\<close> on a saved set with distinct ids and
  \<open>JSON.parse\<close> gives back that list.
\<close>

theorem saved_ids_stay_distinct:
  "length (filter (\<lambda>x. article_id x = article_id a) (savedArticles (handleSave a s))) \<le> 1 \<and>
   (isArticleSaved s (article_id a) \<longrightarrow>
      set (savedArticles (handleSave a s)) \<subseteq> set (savedArticles s) \<and>
      length (savedArticles (handleSave a s)) < length (savedArticles s) \<and>
      \<not> isArticleSaved (handleSave a s) (article_id a)) \<and>
   (distinct (map article_id (savedArticles s)) \<longrightarrow>
      distinct (map article_id (savedArticles (handleSave a s)))) \<and>
   (mount parse stringify store = Inr b \<longrightarrow>
      savedArticles (app b) =
        (case load_saved parse store of Inr (Some xs) \<Rightarrow> xs | _ \<Rightarrow> [])) \<and>
   (distinct (map article_id (savedArticles (app b0))) \<and>
    parse (stringify (savedArticles (handleSave a (app b0)))) =
      Inr (savedArticles (handleSave a (app b0))) \<and>
    mount parse stringify (localStorage (save_click stringify a b0)) = Inr b1 \<longrightarrow>
      distinct (map article_id (savedArticles (app b1))))"
proof -
  have one: "length (filter (\<lambda>x. article_id x = article_id a)
      (savedArticles (handleSave a s))) \<le> 1"
  proof (cases "isArticleSaved s (article_id a)")
    case True
    then show ?thesis by (simp add: handleSave_saved)
  next
    case False
    then have "filter (\<lambda>x. article_id x = article_id a) (savedArticles s) = []"
      by (simp add: isArticleSaved_def list_ex_iff filter_empty_conv)
    with False show ?thesis by (simp add: handleSave_saved)
  qed
  have present: "isArticleSaved s (article_id a) \<longrightarrow>
      set (savedArticles (handleSave a s)) \<subseteq> set (savedArticles s) \<and>
      length (savedArticles (handleSave a s)) < length (savedArticles s) \<and>
      \<not> isArticleSaved (handleSave a s) (article_id a)"
  proof
    assume saved: "isArticleSaved s (article_id a)"
    then obtain x where x: "x \<in> set (savedArticles s)" "article_id x = article_id a"
      by (auto simp: isArticleSaved_iff)
    have "length (filter (\<lambda>x. article_id x \<noteq> article_id a) (savedArticles s))
            < length (savedArticles s)"
      using x by (intro length_filter_less[of x]) auto
    with saved show "set (savedArticles (handleSave a s)) \<subseteq> set (savedArticles s) \<and>
      length (savedArticles (handleSave a s)) < length (savedArticles s) \<and>
      \<not> isArticleSaved (handleSave a s) (article_id a)"
      by (auto simp: handleSave_saved isArticleSaved_iff)
  qed
  have keep: "distinct (map article_id (savedArticles s)) \<longrightarrow>
      distinct (map article_id (savedArticles (handleSave a s)))"
    by (simp add: handleSave_distinct)
  have load: "mount parse stringify store = Inr b \<longrightarrow>
      savedArticles (app b) =
        (case load_saved parse store of Inr (Some xs) \<Rightarrow> xs | _ \<Rightarrow> [])"
    by (simp add: mount_saved)
  have reload: "distinct (map article_id (savedArticles (app b0))) \<and>
    parse (stringify (savedArticles (handleSave a (app b0)))) =
      Inr (savedArticles (handleSave a (app b0))) \<and>
    mount parse stringify (localStorage (save_click stringify a b0)) = Inr b1 \<longrightarrow>
      distinct (map article_id (savedArticles (app b1)))"
  proof
    assume h: "distinct (map article_id (savedArticles (app b0))) \<and>
      parse (stringify (savedArticles (handleSave a (app b0)))) =
        Inr (savedArticles (handleSave a (app b0))) \<and>
      mount parse stringify (localStorage (save_click stringify a b0)) = Inr b1"
    then have d: "distinct (map article_id (savedArticles (handleSave a (app b0))))"
      by (simp add: handleSave_distinct)
    from h have m: "mount parse stringify (localStorage (save_click stringify a b0)) = Inr b1"
      and p: "parse (stringify (savedArticles (handleSave a (app b0)))) =
        Inr (savedArticles (handleSave a (app b0)))"
      by simp_all
    have "load_saved parse (localStorage (save_click stringify a b0)) =
        (if stringify (savedArticles (handleSave a (app b0))) = [] then Inr None
         else Inr (Some (savedArticles (handleSave a (app b0)))))"
      using p by (rule load_saved_after_save)
    with mount_saved[OF m]
    have "savedArticles (app b1) =
        (if stringify (savedArticles (handleSave a (app b0))) = [] then []
         else savedArticles (handleSave a (app b0)))"
      by simp
    with d show "distinct (map article_id (savedArticles (app b1)))"
      by simp
  qed
  from one present keep load reload show ?thesis by blast
qed

theorem saved_ids_stay_distinct_witness:
  "isArticleSaved sample_state (article_id (sample_article 2)) \<and>
   distinct (map article_id (savedArticles sample_state)) \<and>
   savedArticles (handleSave (sample_article 2) sample_state) = [sample_article 1] \<and>
   distinct (map article_id (savedArticles (handleSave (sample_article 2) sample_state))) \<and>
   \<not> isArticleSaved (handleSave (sample_article 2) sample_state) (article_id (sample_article 2)) \<and>
   mount (\<lambda>text. Inr (savedArticles (handleSave (sample_article 2) sample_state)))
       (\<lambda>xs. string_of_nat (length xs))
       (localStorage (save_click (\<lambda>xs. string_of_nat (length xs)) (sample_article 2)
          \<lparr>app = sample_state, localStorage = Map.empty\<rparr>)) =
     Inr \<lparr>app = initial_state\<lparr>savedArticles := [sample_article 1]\<rparr>,
          localStorage = [''readrabbit_saved'' \<mapsto> ''1'']\<rparr> \<and>
   distinct (map article_id (savedArticles
     (app \<lparr>app = initial_state\<lparr>savedArticles := [sample_article 1]\<rparr>,
           localStorage = [''readrabbit_saved'' \<mapsto> ''1'']\<rparr>)))"
proof -
  let ?S = "\<lambda>xs :: article list. string_of_nat (length xs)"
  let ?P = "\<lambda>text :: string.
    Inr (savedArticles (handleSave (sample_article 2) sample_state)) :: string + article list"
  let ?b0 = "\<lparr>app = sample_state, localStorage = Map.empty\<rparr>"
  let ?b1 = "\<lparr>app = initial_state\<lparr>savedArticles := [sample_article 1]\<rparr>,
          localStorage = [''readrabbit_saved'' \<mapsto> ''1'']\<rparr>"
  have present: "isArticleSaved sample_state (article_id (sample_article 2))"
    by (simp add: sample_defs)
  have d: "distinct (map article_id (savedArticles sample_state))"
    by (simp add: sample_defs)
  have res: "savedArticles (handleSave (sample_article 2) sample_state) = [sample_article 1]"
    by (simp add: sample_defs)
  have d0: "distinct (map article_id (savedArticles (app ?b0)))"
    using d by simp
  have p: "?P (?S (savedArticles (handleSave (sample_article 2) (app ?b0)))) =
      Inr (savedArticles (handleSave (sample_article 2) (app ?b0)))"
    by simp
  have st: "localStorage (save_click ?S (sample_article 2) ?b0) = [''readrabbit_saved'' \<mapsto> ''1'']"
    by (simp add: save_click_def persist_saved_def storage_key_def Let_def res string_of_nat_1)
  have m: "mount ?P ?S (localStorage (save_click ?S (sample_article 2) ?b0)) = Inr ?b1"
    unfolding st
    by (simp add: mount_def load_saved_def persist_saved_def storage_key_def Let_def res
        string_of_nat_1 initial_state_def)
  note inst = saved_ids_stay_distinct
    [where a = "sample_article 2" and s = sample_state and parse = ?P and stringify = ?S
       and store = "localStorage (save_click ?S (sample_article 2) ?b0)" and b = ?b1
       and ?b0.0 = ?b0 and ?b1.0 = ?b1]
  from inst d have after: "distinct (map article_id
      (savedArticles (handleSave (sample_article 2) sample_state)))"
    by blast
  from inst present
  have gone: "\<not> isArticleSaved (handleSave (sample_article 2) sample_state)
      (article_id (sample_article 2))"
    by blast
  from inst d0 p m have re: "distinct (map article_id (savedArticles (app ?b1)))"
    by blast
  from present d res after gone m re show ?thesis by blast
qed

text \<open>
  The load itself does not preserve the property: from the empty saved set of the first
  render, a stored text that parses to two articles with the id 1 becomes a saved set with
  that id twice.
\<close>

theorem load_installs_duplicate_ids:
  "distinct (map article_id (savedArticles initial_state)) \<and>
   mount (\<lambda>text. Inr [sample_article 1, sample_article 1]) (\<lambda>xs. string_of_nat (length xs))
       [''readrabbit_saved'' \<mapsto> ''[1,1]''] =
     Inr \<lparr>app = initial_state\<lparr>savedArticles := [sample_article 1, sample_article 1]\<rparr>,
          localStorage = [''readrabbit_saved'' \<mapsto> ''2'']\<rparr> \<and>
   \<not> distinct (map article_id (savedArticles
       (initial_state\<lparr>savedArticles := [sample_article 1, sample_article 1]\<rparr>)))"
  by (simp add: mount_def load_saved_def persist_saved_def storage_key_def Let_def
      string_of_nat_2 initial_state_def)

text \<open>
  C7.  Nothing bounds the saved set.  Saving articles with pairwise distinct ids, one
  after the other, starting from the empty saved set, leaves exactly these articles, in
  the order of saving, so as many entries as there were saves.  \<open>handleSave\<close> never
  touches an entry whose id is not the one of its argument, and dismissing, fetching
  and paging leave the saved set as it is.
\<close>

theorem saves_are_all_retained:
  "(distinct (map article_id as) \<and> savedArticles s = [] \<longrightarrow>
      savedArticles (fold handleSave as s) = as \<and>
      length (savedArticles (fold handleSave as s)) = length as) \<and>
   filter (\<lambda>x. article_id x \<noteq> article_id a) (savedArticles (handleSave a s)) =
     filter (\<lambda>x. article_id x \<noteq> article_id a) (savedArticles s) \<and>
   savedArticles (state (handleDismiss base k dismissed response s)) = savedArticles s \<and>
   savedArticles (state (fetchArticles base response s)) = savedArticles s \<and>
   savedArticles (state (handleShowMore base response s)) = savedArticles s"
  using fold_handleSave[of s as]
  by (simp add: handleSave_saved handleDismiss_saved fetchArticles_saved handleShowMore_saved)

theorem saves_are_all_retained_witness:
  "distinct (map article_id [sample_article 3, sample_article 1, sample_article 2]) \<and>
   savedArticles initial_state = [] \<and>
   savedArticles
     (fold handleSave [sample_article 3, sample_article 1, sample_article 2] initial_state) =
     [sample_article 3, sample_article 1, sample_article 2]"
proof -
  have d: "distinct (map article_id [sample_article 3, sample_article 1, sample_article 2])"
    by (simp add: sample_article_def)
  have e: "savedArticles initial_state = []"
    by (simp add: initial_state_def)
  from saves_are_all_retained
    [of "[sample_article 3, sample_article 1, sample_article 2]" initial_state] d e
  show ?thesis by blast
qed

text \<open>
  C8.  \<open>handleSave\<close> toggles membership.  For an article whose id is absent it appends the
  article, and a second call with the same article gives back the state it started
  from.  For an article whose id is present it removes every entry with that id, and a
  second call appends the article again.  In both cases two calls leave the answer of
  \<open>isArticleSaved\<close> unchanged for every id.
\<close>

theorem handleSave_toggle:
  "(\<not> isArticleSaved s (article_id a) \<longrightarrow>
      savedArticles (handleSave a s) = savedArticles s @ [a] \<and>
      handleSave a (handleSave a s) = s) \<and>
   (isArticleSaved s (article_id a) \<longrightarrow>
      savedArticles (handleSave a s) =
        filter (\<lambda>x. article_id x \<noteq> article_id a) (savedArticles s) \<and>
      savedArticles (handleSave a (handleSave a s)) =
        filter (\<lambda>x. article_id x \<noteq> article_id a) (savedArticles s) @ [a]) \<and>
   (\<forall>k. isArticleSaved (handleSave a (handleSave a s)) k = isArticleSaved s k)"
proof (cases "isArticleSaved s (article_id a)")
  case True
  have gone: "\<not> isArticleSaved (handleSave a s) (article_id a)"
    using True by (auto simp: isArticleSaved_iff handleSave_saved)
  have twice: "savedArticles (handleSave a (handleSave a s)) =
      filter (\<lambda>x. article_id x \<noteq> article_id a) (savedArticles s) @ [a]"
    using gone True by (simp add: handleSave_saved[of a "handleSave a s"] handleSave_saved[of a s])
  have "\<forall>k. isArticleSaved (handleSave a (handleSave a s)) k = isArticleSaved s k"
    using True by (auto simp: isArticleSaved_iff twice)
  with True twice show ?thesis by (simp add: handleSave_saved)
next
  case False
  then have absent: "article_id a \<notin> article_id ` set (savedArticles s)"
    by (simp add: isArticleSaved_iff)
  have one: "handleSave a s = s\<lparr>savedArticles := savedArticles s @ [a]\<rparr>"
    using False by (simp add: handleSave_def isArticleSaved_def)
  have "handleSave a (handleSave a s) = s"
    unfolding one using absent by (simp add: handleSave_def filter_absent_id)
  with False show ?thesis by (simp add: handleSave_saved)
qed

theorem handleSave_toggle_witness:
  "\<not> isArticleSaved sample_state (article_id (sample_article 3)) \<and>
   savedArticles (handleSave (sample_article 3) sample_state) =
     [sample_article 1, sample_article 2, sample_article 3] \<and>
   handleSave (sample_article 3) (handleSave (sample_article 3) sample_state) = sample_state \<and>
   isArticleSaved sample_state (article_id (sample_article 1)) \<and>
   savedArticles (handleSave (sample_article 1) sample_state) = [sample_article 2] \<and>
   savedArticles (handleSave (sample_article 1) (handleSave (sample_article 1) sample_state)) =
     [sample_article 2, sample_article 1]"
proof -
  have absent: "\<not> isArticleSaved sample_state (article_id (sample_article 3))"
    by (simp add: sample_defs)
  have present: "isArticleSaved sample_state (article_id (sample_article 1))"
    by (simp add: sample_defs)
  have f: "filter (\<lambda>x. article_id x \<noteq> article_id (sample_article 1))
      (savedArticles sample_state) = [sample_article 2]"
    by (simp add: sample_defs)
  have ap: "savedArticles sample_state @ [sample_article 3] =
      [sample_article 1, sample_article 2, sample_article 3]"
    by (simp add: sample_defs)
  from handleSave_toggle[of sample_state "sample_article 3"]
    handleSave_toggle[of sample_state "sample_article 1"] absent present f ap
  show ?thesis by simp
qed

section \<open>Facts about dismiss and replace\<close>


lemma replace_dismissed_nth:
  "i < length prev \<Longrightarrow>
     replace_dismissed k fresh prev ! i =
       (if article_id (prev ! i) = k then fresh else prev ! i)"
  by (simp add: replace_dismissed_def)

lemma replace_dismissed_update:
  "distinct (map article_id prev) \<Longrightarrow> i < length prev \<Longrightarrow> article_id (prev ! i) = k \<Longrightarrow>
     replace_dismissed k fresh prev = prev[i := fresh]"
proof (rule nth_equalityI)
  show "length (replace_dismissed k fresh prev) = length (prev[i := fresh])"
    by (simp add: replace_dismissed_def)
next
  fix j
  assume d: "distinct (map article_id prev)" and i: "i < length prev"
    and k: "article_id (prev ! i) = k"
    and j: "j < length (replace_dismissed k fresh prev)"
  then have j': "j < length prev" by (simp add: replace_dismissed_def)
  have "article_id (prev ! j) = k \<longleftrightarrow> j = i"
    using d i j' k nth_eq_iff_index_eq[of "map article_id prev" j i] by auto
  then show "replace_dismissed k fresh prev ! j = prev[i := fresh] ! j"
    using i j' by (auto simp: replace_dismissed_nth)
qed


lemma handleDismiss_multi:
  "viewMode s \<noteq> Single \<Longrightarrow>
   state (handleDismiss base k (Resolved ok b) (Resolved ok' (Inr data)) s) =
     (if data = [] then s else s\<lparr>articles := replace_dismissed k (data ! 0) (articles s)\<rparr>)"
  by (simp add: handleDismiss_def)





lemma handleDismiss_displayed_saved:
  "activeTab s = Saved \<Longrightarrow>
     displayArticles (state (handleDismiss base k dismissed response s)) = displayArticles s"
  by (simp add: displayArticles_def handleDismiss_def Let_def
      split: fetch_result.splits sum.splits)

lemma handleDismiss_activeTab:
  "activeTab (state (handleDismiss base k dismissed response s)) = activeTab s"
  by (simp add: handleDismiss_def Let_def split: fetch_result.splits sum.splits)

text \<open>
  C3.  Amended: in the cards and feed views, once both requests have been answered
  (whatever their status) and the answer holds at least one article, the dismiss changes
  nothing but the cell \<open>articles\<close>: that list keeps its length, every position whose
  entry has the dismissed id holds the first fetched article as a whole, and every other
  position holds what it held before; with distinct ids the position of the dismissed
  entry is the only one updated.  An empty answer leaves the state unchanged.  On the
  discover tab \<open>articles\<close> is the displayed list, so all of this holds of what is shown.
  On the saved tab the displayed list is the saved set, which a dismiss leaves as it was.
\<close>

theorem dismiss_replaces_only_dismissed:
  "viewMode s \<noteq> Single \<Longrightarrow>
   s' = state (handleDismiss base k (Resolved ok b) (Resolved ok' (Inr data)) s) \<Longrightarrow>
     (data = [] \<longrightarrow> s' = s) \<and>
     (data \<noteq> [] \<longrightarrow>
        s' = s\<lparr>articles := articles s'\<rparr> \<and>
        length (articles s') = length (articles s) \<and>
        (\<forall>i < length (articles s).
           articles s' ! i =
             (if article_id (articles s ! i) = k then data ! 0 else articles s ! i)) \<and>
        (\<forall>i < length (articles s).
           distinct (map article_id (articles s)) \<longrightarrow> article_id (articles s ! i) = k \<longrightarrow>
           articles s' = (articles s)[i := data ! 0])) \<and>
     (activeTab s = Discover \<and> data \<noteq> [] \<longrightarrow>
        length (displayArticles s') = length (displayArticles s) \<and>
        (\<forall>i < length (displayArticles s).
           displayArticles s' ! i =
             (if article_id (displayArticles s ! i) = k then data ! 0
              else displayArticles s ! i)) \<and>
        (\<forall>i < length (displayArticles s).
           distinct (map article_id (displayArticles s)) \<longrightarrow>
           article_id (displayArticles s ! i) = k \<longrightarrow>
           displayArticles s' = (displayArticles s)[i := data ! 0])) \<and>
     (activeTab s = Saved \<longrightarrow> displayArticles s' = displayArticles s)"
proof -
  assume multi: "viewMode s \<noteq> Single"
    and s': "s' = state (handleDismiss base k (Resolved ok b) (Resolved ok' (Inr data)) s)"
  have eq: "s' = (if data = [] then s
                  else s\<lparr>articles := replace_dismissed k (data ! 0) (articles s)\<rparr>)"
    using multi s' by (simp add: handleDismiss_multi)
  have empty: "data = [] \<longrightarrow> s' = s"
    using eq by simp
  have cell: "data \<noteq> [] \<longrightarrow>
        s' = s\<lparr>articles := articles s'\<rparr> \<and>
        length (articles s') = length (articles s) \<and>
        (\<forall>i < length (articles s).
           articles s' ! i =
             (if article_id (articles s ! i) = k then data ! 0 else articles s ! i)) \<and>
        (\<forall>i < length (articles s).
           distinct (map article_id (articles s)) \<longrightarrow> article_id (articles s ! i) = k \<longrightarrow>
           articles s' = (articles s)[i := data ! 0])"
  proof
    assume ne: "data \<noteq> []"
    with eq have arts: "articles s' = replace_dismissed k (data ! 0) (articles s)"
      and rest: "s' = s\<lparr>articles := articles s'\<rparr>"
      by simp_all
    have len: "length (articles s') = length (articles s)"
      by (simp add: arts replace_dismissed_def)
    have pointwise: "\<forall>i < length (articles s).
           articles s' ! i =
             (if article_id (articles s ! i) = k then data ! 0 else articles s ! i)"
      by (simp add: arts replace_dismissed_nth)
    have single: "\<forall>i < length (articles s).
           distinct (map article_id (articles s)) \<longrightarrow> article_id (articles s ! i) = k \<longrightarrow>
           articles s' = (articles s)[i := data ! 0]"
      by (simp add: arts replace_dismissed_update)
    from rest len pointwise single
    show "s' = s\<lparr>articles := articles s'\<rparr> \<and>
        length (articles s') = length (articles s) \<and>
        (\<forall>i < length (articles s).
           articles s' ! i =
             (if article_id (articles s ! i) = k then data ! 0 else articles s ! i)) \<and>
        (\<forall>i < length (articles s).
           distinct (map article_id (articles s)) \<longrightarrow> article_id (articles s ! i) = k \<longrightarrow>
           articles s' = (articles s)[i := data ! 0])"
      by blast
  qed
  have tab: "activeTab s' = activeTab s"
    using s' by (simp add: handleDismiss_activeTab)
  have shown: "activeTab s = Discover \<and> data \<noteq> [] \<longrightarrow>
        length (displayArticles s') = length (displayArticles s) \<and>
        (\<forall>i < length (displayArticles s).
           displayArticles s' ! i =
             (if article_id (displayArticles s ! i) = k then data ! 0
              else displayArticles s ! i)) \<and>
        (\<forall>i < length (displayArticles s).
           distinct (map article_id (displayArticles s)) \<longrightarrow>
           article_id (displayArticles s ! i) = k \<longrightarrow>
           displayArticles s' = (displayArticles s)[i := data ! 0])"
  proof
    assume h: "activeTab s = Discover \<and> data \<noteq> []"
    with tab have d: "displayArticles s = articles s" and d': "displayArticles s' = articles s'"
      by (simp_all add: displayArticles_def)
    from h cell show "length (displayArticles s') = length (displayArticles s) \<and>
        (\<forall>i < length (displayArticles s).
           displayArticles s' ! i =
             (if article_id (displayArticles s ! i) = k then data ! 0
              else displayArticles s ! i)) \<and>
        (\<forall>i < length (displayArticles s).
           distinct (map article_id (displayArticles s)) \<longrightarrow>
           article_id (displayArticles s ! i) = k \<longrightarrow>
           displayArticles s' = (displayArticles s)[i := data ! 0])"
      unfolding d d' by blast
  qed
  have saved: "activeTab s = Saved \<longrightarrow> displayArticles s' = displayArticles s"
    using s' by (simp add: handleDismiss_displayed_saved)
  from empty cell shown saved show ?thesis by blast
qed

theorem dismiss_replaces_only_dismissed_witness:
  "viewMode sample_state \<noteq> Single \<and>
   activeTab sample_state = Discover \<and>
   displayArticles sample_state = [sample_article 1, sample_article 2] \<and>
   displayArticles (state (handleDismiss ''/api'' 2 (Resolved True (Inr ()))
       (Resolved True (Inr [sample_article 3])) sample_state)) =
     [sample_article 1, sample_article 3] \<and>
   state (handleDismiss ''/api'' 2 (Resolved True (Inr ()))
       (Resolved True (Inr [])) sample_state) = sample_state \<and>
   activeTab (sample_state\<lparr>activeTab := Saved\<rparr>) = Saved \<and>
   displayArticles (state (handleDismiss ''/api'' 2 (Resolved True (Inr ()))
       (Resolved True (Inr [sample_article 3])) (sample_state\<lparr>activeTab := Saved\<rparr>))) =
     displayArticles (sample_state\<lparr>activeTab := Saved\<rparr>)"
proof -
  have m: "viewMode sample_state \<noteq> Single"
    by (simp add: sample_defs)
  have m': "viewMode (sample_state\<lparr>activeTab := Saved\<rparr>) \<noteq> Single"
    by (simp add: sample_defs)
  have t': "activeTab (sample_state\<lparr>activeTab := Saved\<rparr>) = Saved"
    by simp
  from dismiss_replaces_only_dismissed
    [where s = "sample_state\<lparr>activeTab := Saved\<rparr>" and base = "''/api''" and k = 2
       and ok = True and b = "Inr ()" and ok' = True and data = "[sample_article 3]",
     OF m' refl] t'
  have sv: "displayArticles (state (handleDismiss ''/api'' 2 (Resolved True (Inr ()))
       (Resolved True (Inr [sample_article 3])) (sample_state\<lparr>activeTab := Saved\<rparr>))) =
     displayArticles (sample_state\<lparr>activeTab := Saved\<rparr>)"
    by blast
  have t: "activeTab sample_state = Discover"
    by (simp add: sample_defs)
  have a: "displayArticles sample_state = [sample_article 1, sample_article 2]"
    by (simp add: displayArticles_def sample_defs)
  have d: "distinct (map article_id (displayArticles sample_state))"
    by (simp add: displayArticles_def sample_defs)
  have k: "article_id (displayArticles sample_state ! 1) = 2"
    by (simp add: displayArticles_def sample_defs)
  have l: "1 < length (displayArticles sample_state)"
    by (simp add: displayArticles_def sample_defs)
  have ne: "[sample_article 3] \<noteq> []"
    by simp
  have u: "(displayArticles sample_state)[1 := [sample_article 3] ! 0] =
      [sample_article 1, sample_article 3]"
    by (simp add: displayArticles_def sample_defs)
  from dismiss_replaces_only_dismissed
    [where s = sample_state and base = "''/api''" and k = 2 and ok = True and b = "Inr ()"
       and ok' = True and data = "[sample_article 3]", OF m refl] ne t
  have "\<forall>i < length (displayArticles sample_state).
      distinct (map article_id (displayArticles sample_state)) \<longrightarrow>
      article_id (displayArticles sample_state ! i) = 2 \<longrightarrow>
      displayArticles (state (handleDismiss ''/api'' 2 (Resolved True (Inr ()))
        (Resolved True (Inr [sample_article 3])) sample_state)) =
      (displayArticles sample_state)[i := [sample_article 3] ! 0]"
    by blast
  with l d k
  have "displayArticles (state (handleDismiss ''/api'' 2 (Resolved True (Inr ()))
       (Resolved True (Inr [sample_article 3])) sample_state)) =
     (displayArticles sample_state)[1 := [sample_article 3] ! 0]"
    by blast
  with u have r: "displayArticles (state (handleDismiss ''/api'' 2 (Resolved True (Inr ()))
       (Resolved True (Inr [sample_article 3])) sample_state)) =
     [sample_article 1, sample_article 3]"
    by simp
  from dismiss_replaces_only_dismissed
    [where s = sample_state and base = "''/api''" and k = 2 and ok = True and b = "Inr ()"
       and ok' = True and data = "[]", OF m refl]
  have e: "state (handleDismiss ''/api'' 2 (Resolved True (Inr ()))
       (Resolved True (Inr [])) sample_state) = sample_state"
    by blast
  from m t a r e t' sv show ?thesis by blast
qed

text \<open>
  On the saved tab the displayed entry with the dismissed id is not replaced: with the
  saved articles 1 and 2 on display in the cards view, dismissing article 2 and receiving
  article 3 leaves 1 and 2 on display, while the list of the discover tab becomes 1, 3.
\<close>

theorem dismiss_on_saved_tab_keeps_display:
  "viewMode (sample_state\<lparr>activeTab := Saved\<rparr>) = Cards \<and>
   displayArticles (sample_state\<lparr>activeTab := Saved\<rparr>) = [sample_article 1, sample_article 2] \<and>
   displayArticles (state (handleDismiss ''/api'' 2 (Resolved True (Inr ()))
       (Resolved True (Inr [sample_article 3])) (sample_state\<lparr>activeTab := Saved\<rparr>))) =
     [sample_article 1, sample_article 2] \<and>
   displayArticles (state (handleDismiss ''/api'' 2 (Resolved True (Inr ()))
       (Resolved True (Inr [sample_article 3])) (sample_state\<lparr>activeTab := Saved\<rparr>))) ! 1 \<noteq>
     sample_article 3 \<and>
   articles (state (handleDismiss ''/api'' 2 (Resolved True (Inr ()))
       (Resolved True (Inr [sample_article 3])) (sample_state\<lparr>activeTab := Saved\<rparr>))) =
     [sample_article 1, sample_article 3]"
  by (simp add: sample_defs handleDismiss_def replace_dismissed_def displayArticles_def)

text \<open>
  C6.  A dismiss sends the POST to \<open>/articles/{id}/dismiss\<close> first.  When that promise
  rejects nothing else is sent; otherwise, whatever the status of the answer, exactly
  one GET of \<open>/articles/random?count=1\<close> follows.  The GET never precedes the POST.
\<close>

theorem dismiss_request_order:
  "requests (handleDismiss base k dismissed response s) =
     (case dismissed of
        Rejected msg \<Rightarrow>
          [Request POST (base @ ''/articles/'' @ string_of_nat k @ ''/dismiss'') None]
      | Resolved ok b \<Rightarrow>
          [Request POST (base @ ''/articles/'' @ string_of_nat k @ ''/dismiss'') None,
           Request GET (base @ ''/articles/random?count=1'') None])"
  by (simp add: handleDismiss_def Let_def dismiss_url_def random_url_def string_of_nat_1
      split: fetch_result.splits sum.splits)

theorem dismiss_request_order_witness:
  "requests (handleDismiss (API_BASE None) 12
       (Resolved False (Inl ''not json'') :: unit fetch_result)
       (Resolved True (Inr [sample_article 3])) sample_state) =
     [Request POST ''/api/articles/12/dismiss'' None,
      Request GET ''/api/articles/random?count=1'' None] \<and>
   requests (handleDismiss (API_BASE None) 12 (Rejected ''Failed to fetch'' :: unit fetch_result)
       (Resolved True (Inr [sample_article 3])) sample_state) =
     [Request POST ''/api/articles/12/dismiss'' None]"
  using dismiss_request_order[of "API_BASE None" 12 "Resolved False (Inl ''not json'') :: unit fetch_result"
      "Resolved True (Inr [sample_article 3])" sample_state]
    dismiss_request_order[of "API_BASE None" 12 "Rejected ''Failed to fetch'' :: unit fetch_result"
      "Resolved True (Inr [sample_article 3])" sample_state]
  by (simp add: API_BASE_def string_of_nat_12)

section \<open>Facts about failures, storage, rendering and the admin form\<close>





text \<open>
  C5.  The only key written is \<open>readrabbit_saved\<close>.  After a save click the storage is
  the one before with that key set to the serialization of the saved set that
  \<open>handleSave\<close> produced, and after mounting (when the stored text parses) it is the
  initial storage with that key set to the serialization of the saved set in the state;
  every other key holds what it held.
\<close>

theorem storage_mirrors_saved_set:
  "storage_key = ''readrabbit_saved'' \<and>
   app (save_click stringify a b) = handleSave a (app b) \<and>
   localStorage (save_click stringify a b) =
     (localStorage b)(''readrabbit_saved'' \<mapsto>
        stringify (savedArticles (app (save_click stringify a b)))) \<and>
   (mount parse stringify store = Inr b' \<longrightarrow>
      localStorage b' =
        store(''readrabbit_saved'' \<mapsto> stringify (savedArticles (app b'))))"
  by (auto simp: save_click_def persist_saved_def storage_key_def mount_def Let_def
      split: sum.splits option.splits)

theorem storage_mirrors_saved_set_witness:
  "mount (\<lambda>text. Inr [sample_article 1]) (\<lambda>xs. string_of_nat (length xs))
      [''readrabbit_saved'' \<mapsto> ''[{}]'', ''theme'' \<mapsto> ''dark''] =
     Inr \<lparr>app = initial_state\<lparr>savedArticles := [sample_article 1]\<rparr>,
          localStorage = [''readrabbit_saved'' \<mapsto> ''1'', ''theme'' \<mapsto> ''dark'']\<rparr> \<and>
   [''readrabbit_saved'' \<mapsto> ''1'', ''theme'' \<mapsto> ''dark''] =
     [''readrabbit_saved'' \<mapsto> ''[{}]'', ''theme'' \<mapsto> ''dark'']
       (''readrabbit_saved'' \<mapsto> string_of_nat (length [sample_article 1])) \<and>
   localStorage
     (save_click (\<lambda>xs. string_of_nat (length xs)) (sample_article 2)
        \<lparr>app = initial_state\<lparr>savedArticles := [sample_article 1]\<rparr>,
         localStorage = [''readrabbit_saved'' \<mapsto> ''1'', ''theme'' \<mapsto> ''dark'']\<rparr>)
     ''readrabbit_saved'' = Some ''2'' \<and>
   localStorage
     (save_click (\<lambda>xs. string_of_nat (length xs)) (sample_article 2)
        \<lparr>app = initial_state\<lparr>savedArticles := [sample_article 1]\<rparr>,
         localStorage = [''readrabbit_saved'' \<mapsto> ''1'', ''theme'' \<mapsto> ''dark'']\<rparr>)
     ''theme'' = Some ''dark''"
proof -
  let ?S = "\<lambda>xs :: article list. string_of_nat (length xs)"
  let ?P = "\<lambda>text :: string. Inr [sample_article 1] :: string + article list"
  let ?st = "[''readrabbit_saved'' \<mapsto> ''[{}]'', ''theme'' \<mapsto> ''dark'']"
  let ?B = "\<lparr>app = initial_state\<lparr>savedArticles := [sample_article 1]\<rparr>,
          localStorage = [''readrabbit_saved'' \<mapsto> ''1'', ''theme'' \<mapsto> ''dark'']\<rparr>"
  have m: "mount ?P ?S ?st = Inr ?B"
    by (auto simp: mount_def load_saved_def persist_saved_def storage_key_def Let_def
        string_of_nat_1 initial_state_def)
  note mirror = storage_mirrors_saved_set
    [where stringify = ?S and a = "sample_article 2" and b = ?B and parse = ?P
       and store = ?st and b' = ?B]
  from mirror m have "localStorage ?B = ?st(''readrabbit_saved'' \<mapsto> ?S (savedArticles (app ?B)))"
    by blast
  then have l: "[''readrabbit_saved'' \<mapsto> ''1'', ''theme'' \<mapsto> ''dark''] =
     ?st(''readrabbit_saved'' \<mapsto> string_of_nat (length [sample_article 1]))"
    by simp
  have s: "savedArticles (handleSave (sample_article 2) (app ?B)) =
      [sample_article 1, sample_article 2]"
    by (simp add: sample_defs)
  from mirror have a: "app (save_click ?S (sample_article 2) ?B) =
      handleSave (sample_article 2) (app ?B)"
    by blast
  from mirror have e: "localStorage (save_click ?S (sample_article 2) ?B) =
      (localStorage ?B)(''readrabbit_saved'' \<mapsto>
         ?S (savedArticles (app (save_click ?S (sample_article 2) ?B))))"
    by blast
  have k: "localStorage (save_click ?S (sample_article 2) ?B) ''readrabbit_saved'' = Some ''2''"
    unfolding e a s by (simp add: string_of_nat_2)
  have t: "localStorage (save_click ?S (sample_article 2) ?B) ''theme'' = Some ''dark''"
    unfolding e by simp
  from m l k t show ?thesis by blast
qed

text \<open>
  C9.  The single view renders a card only for a non-empty displayed list, and then the
  index it reads, \<open>singleIndex % displayArticles.length\<close> on the saved tab and \<open>0\<close> on the
  discover tab, lies below the length of the list for every value of \<open>singleIndex\<close>: the
  card shows an element of the list, never \<open>undefined\<close>.
\<close>

theorem single_view_index_in_bounds:
  "(displayArticles s = [] \<longrightarrow> single_card s = None) \<and>
   (displayArticles s \<noteq> [] \<longrightarrow>
      singleIndex s mod length (displayArticles s) < length (displayArticles s) \<and>
      single_index s < length (displayArticles s) \<and>
      single_card s =
        Some (Some (displayArticles s ! single_index s),
              isArticleSaved s (article_id (displayArticles s ! single_index s))) \<and>
      (activeTab s = Saved \<and> viewMode s = Single \<and> \<not> loading s \<and> error s = None \<and>
         \<not> showAdmin s \<and> \<not> showAgent s \<longrightarrow>
         render s = MainView (SingleCard (Some
           (Some (savedArticles s ! (singleIndex s mod length (savedArticles s))),
            isArticleSaved s
              (article_id
                 (savedArticles s ! (singleIndex s mod length (savedArticles s)))))))))"
proof (cases "displayArticles s = []")
  case True
  then show ?thesis by (simp add: single_card_def)
next
  case ne: False
  then have m: "singleIndex s mod length (displayArticles s) < length (displayArticles s)"
    by simp
  from ne have i: "single_index s < length (displayArticles s)"
    by (simp add: single_index_def)
  from ne i have c: "single_card s =
       Some (Some (displayArticles s ! single_index s),
             isArticleSaved s (article_id (displayArticles s ! single_index s)))"
    by (simp add: single_card_def js_index_def)
  have r: "activeTab s = Saved \<and> viewMode s = Single \<and> \<not> loading s \<and> error s = None \<and>
         \<not> showAdmin s \<and> \<not> showAgent s \<longrightarrow>
        render s = MainView (SingleCard (Some
          (Some (savedArticles s ! (singleIndex s mod length (savedArticles s))),
           isArticleSaved s
             (article_id (savedArticles s ! (singleIndex s mod length (savedArticles s)))))))"
    using ne c by (auto simp: render_def main_content_def displayArticles_def single_index_def)
  from ne m i c r show ?thesis by blast
qed

theorem single_view_index_in_bounds_witness:
  "displayArticles (sample_state\<lparr>activeTab := Saved, viewMode := Single, singleIndex := 5\<rparr>) =
     [sample_article 1, sample_article 2] \<and>
   single_index (sample_state\<lparr>activeTab := Saved, viewMode := Single, singleIndex := 5\<rparr>) = 1 \<and>
   render (sample_state\<lparr>activeTab := Saved, viewMode := Single, singleIndex := 5\<rparr>) =
     MainView (SingleCard (Some (Some (sample_article 2), True)))"
proof -
  let ?s = "sample_state\<lparr>activeTab := Saved, viewMode := Single, singleIndex := 5\<rparr>"
  have d: "displayArticles ?s = [sample_article 1, sample_article 2]"
    by (simp add: displayArticles_def sample_defs)
  then have ne: "displayArticles ?s \<noteq> []"
    by simp
  have i: "single_index ?s = 1"
    by code_simp
  have g: "activeTab ?s = Saved \<and> viewMode ?s = Single \<and> \<not> loading ?s \<and> error ?s = None \<and>
         \<not> showAdmin ?s \<and> \<not> showAgent ?s"
    by (simp add: sample_defs)
  have v: "savedArticles ?s ! (singleIndex ?s mod length (savedArticles ?s)) = sample_article 2"
    by code_simp
  have sv: "isArticleSaved ?s (article_id (sample_article 2))"
    by (simp add: sample_defs)
  from single_view_index_in_bounds[of ?s] ne g
  have "render ?s = MainView (SingleCard (Some
           (Some (savedArticles ?s ! (singleIndex ?s mod length (savedArticles ?s))),
            isArticleSaved ?s
              (article_id
                 (savedArticles ?s ! (singleIndex ?s mod length (savedArticles ?s)))))))"
    by blast
  with v sv have "render ?s = MainView (SingleCard (Some (Some (sample_article 2), True)))"
    by simp
  with d i show ?thesis by blast
qed

text \<open>
  C10.  \<open>handleManualSave\<close> checks the form before it does anything else, whatever
  function \<open>trim\<close> is.  When the title or the URL is blank after trimming, the only
  effect is the message \<open>Title and URL are required\<close> in \<open>error\<close>: no request is sent, no
  timer is set, and the articles, the stats, the form and every other cell keep their
  values.  When both are non-blank the first request is the POST to \<open>/articles\<close>; a POST
  is among the requests exactly in that case.
\<close>

theorem manual_save_validates_first:
  "(trim (title (manualForm s)) = [] \<or> trim (url (manualForm s)) = [] \<longrightarrow>
      handleManualSave trim base saved stats_response articles_response s =
        \<lparr>state = s\<lparr>error' := Some ''Title and URL are required''\<rparr>, requests = [],
         console = [], timers = []\<rparr> \<and>
      articles' (state (handleManualSave trim base saved stats_response articles_response s)) =
        articles' s \<and>
      stats (state (handleManualSave trim base saved stats_response articles_response s)) =
        stats s \<and>
      manualForm (state (handleManualSave trim base saved stats_response articles_response s)) =
        manualForm s) \<and>
   (trim (title (manualForm s)) \<noteq> [] \<and> trim (url (manualForm s)) \<noteq> [] \<longrightarrow>
      hd (requests (handleManualSave trim base saved stats_response articles_response s)) =
        Request POST (base @ ''/articles'') (Some (manual_body (manualForm s)))) \<and>
   ((\<exists>u body. Request POST u body \<in>
        set (requests (handleManualSave trim base saved stats_response articles_response s))) \<longleftrightarrow>
      trim (title (manualForm s)) \<noteq> [] \<and> trim (url (manualForm s)) \<noteq> [])"
  by (auto simp: handleManualSave_def manual_failed_def fetchStats_def fetchArticles'_def Let_def
      split: fetch_result.splits sum.splits option.splits)

theorem manual_save_validates_first_witness:
  "trim_chars (title (manualForm (sample_admin [CHR 0xA0, CHR 0x20] ''https://example.org''))) =
     [] \<and>
   handleManualSave trim_chars ''/api'' (Resolved True (Inr None)) (Resolved True (Inr 2))
       (Resolved True (Inr (Some [sample_article 1, sample_article 2])))
       (sample_admin [CHR 0xA0, CHR 0x20] ''https://example.org'') =
     \<lparr>state = (sample_admin [CHR 0xA0, CHR 0x20] ''https://example.org'')
         \<lparr>error' := Some ''Title and URL are required''\<rparr>,
      requests = [], console = [], timers = []\<rparr> \<and>
   trim_chars (title (manualForm (sample_admin '' A title '' ''https://example.org''))) =
     ''A title'' \<and>
   trim_chars (url (manualForm (sample_admin '' A title '' ''https://example.org''))) =
     ''https://example.org'' \<and>
   hd (requests (handleManualSave trim_chars ''/api'' (Resolved True (Inr None))
       (Resolved True (Inr 2))
       (Resolved True (Inr (Some [sample_article 1, sample_article 2])))
       (sample_admin '' A title '' ''https://example.org''))) =
     Request POST ''/api/articles''
       (Some (emptyArticle\<lparr>title := '' A title '', url := ''https://example.org''\<rparr>))"
proof -
  have blank:
    "trim_chars (title (manualForm (sample_admin [CHR 0xA0, CHR 0x20] ''https://example.org''))) =
      []"
    by (simp add: sample_admin_def emptyArticle_def trim_chars_def is_space_def)
  have t: "trim_chars (title (manualForm (sample_admin '' A title '' ''https://example.org''))) =
      ''A title''"
    by (simp add: sample_admin_def emptyArticle_def trim_chars_def is_space_def)
  have u: "trim_chars (url (manualForm (sample_admin '' A title '' ''https://example.org''))) =
      ''https://example.org''"
    by (simp add: sample_admin_def emptyArticle_def trim_chars_def is_space_def)
  have body: "manual_body (manualForm (sample_admin '' A title '' ''https://example.org'')) =
      emptyArticle\<lparr>title := '' A title '', url := ''https://example.org''\<rparr>"
    by (simp add: sample_admin_def emptyArticle_def manual_body_def)
  have ne:
    "trim_chars (title (manualForm (sample_admin '' A title '' ''https://example.org''))) \<noteq> [] \<and>
     trim_chars (url (manualForm (sample_admin '' A title '' ''https://example.org''))) \<noteq> []"
    using t u by simp
  from manual_save_validates_first
    [where trim = trim_chars and s = "sample_admin [CHR 0xA0, CHR 0x20] ''https://example.org''"
       and base = "''/api''" and saved = "Resolved True (Inr None)"
       and stats_response = "Resolved True (Inr 2)"
       and articles_response = "Resolved True (Inr (Some [sample_article 1, sample_article 2]))"]
    blank
  have r1: "handleManualSave trim_chars ''/api'' (Resolved True (Inr None))
       (Resolved True (Inr 2))
       (Resolved True (Inr (Some [sample_article 1, sample_article 2])))
       (sample_admin [CHR 0xA0, CHR 0x20] ''https://example.org'') =
     \<lparr>state = (sample_admin [CHR 0xA0, CHR 0x20] ''https://example.org'')
         \<lparr>error' := Some ''Title and URL are required''\<rparr>,
      requests = [], console = [], timers = []\<rparr>"
    by blast
  from manual_save_validates_first
    [where trim = trim_chars and s = "sample_admin '' A title '' ''https://example.org''"
       and base = "''/api''" and saved = "Resolved True (Inr None)"
       and stats_response = "Resolved True (Inr 2)"
       and articles_response = "Resolved True (Inr (Some [sample_article 1, sample_article 2]))"]
    ne
  have "hd (requests (handleManualSave trim_chars ''/api'' (Resolved True (Inr None))
       (Resolved True (Inr 2))
       (Resolved True (Inr (Some [sample_article 1, sample_article 2])))
       (sample_admin '' A title '' ''https://example.org''))) =
     Request POST (''/api'' @ ''/articles'')
       (Some (manual_body (manualForm (sample_admin '' A title '' ''https://example.org''))))"
    by blast
  with body
  have r2: "hd (requests (handleManualSave trim_chars ''/api'' (Resolved True (Inr None))
       (Resolved True (Inr 2))
       (Resolved True (Inr (Some [sample_article 1, sample_article 2])))
       (sample_admin '' A title '' ''https://example.org''))) =
     Request POST ''/api/articles''
       (Some (emptyArticle\<lparr>title := '' A title '', url := ''https://example.org''\<rparr>))"
    by simp
  from blank r1 t u r2 show ?thesis by blast
qed

end
